theory Spec2Isabelle
  imports Main
begin

section \<open>Python text and spreadsheet cells\<close>

text \<open>
  A Python \<open>str\<close> is a sequence of Unicode code points, so text is a list of code points
  (\<open>nat\<close>), not of bytes: the case-insensitive regular expression of \<open>extract_karat\<close>
  tells U+212A (KELVIN SIGN) from the letter K, which a byte model cannot express.
  \<open>u\<close> turns an ASCII literal into such a text.
\<close>

type_synonym ustring = "nat list"

definition u :: "string \<Rightarrow> ustring" where
  "u s = map of_char s"

text \<open>
  A cell as the readers deliver it: \<open>Blank\<close> is an empty cell (\<open>NaN\<close> from pandas,
  \<open>None\<close> from openpyxl), \<open>Text\<close> a \<open>str\<close>, \<open>Num\<close> a number, carried with the
  two things the scripts ask of it: the text \<open>str(cell)\<close> gives and whether the value is
  truthy (\<open>False\<close> for \<open>0\<close> and \<open>0.0\<close>), and \<open>Date\<close> a date or time, carried with
  the text \<open>str(cell)\<close> gives.
\<close>

datatype cell = Blank | Text ustring | Num ustring bool | Date ustring

section \<open>factory-out.py: \<open>extract_karat\<close>\<close>

text \<open>
  \<open>re.search(r'\b(18KT|22KT|24KT)\b', style_no, re.IGNORECASE)\<close>.

  \<open>kelvin\<close> is U+212A. Under \<open>re.IGNORECASE\<close> a literal \<open>K\<close> of a \<open>str\<close> pattern
  matches \<open>K\<close>, \<open>k\<close> and U+212A (the simple lower case of all three is \<open>k\<close>; the
  documentation of \<open>re.IGNORECASE\<close> names this letter), a literal \<open>T\<close> matches \<open>T\<close>
  and \<open>t\<close>, and a digit matches itself only.
\<close>

definition kelvin :: nat where
  "kelvin = 0x212A"

definition lit_ignorecase :: "nat \<Rightarrow> nat \<Rightarrow> bool" where
  "lit_ignorecase p c =
     (if p = 0x4B then c = 0x4B \<or> c = 0x6B \<or> c = kelvin
      else if p = 0x54 then c = 0x54 \<or> c = 0x74
      else c = p)"

text \<open>The pattern's literals against the head of the text.\<close>

fun prefix_ignorecase :: "ustring \<Rightarrow> ustring \<Rightarrow> bool" where
  "prefix_ignorecase [] cs = True"
| "prefix_ignorecase (p # ps) [] = False"
| "prefix_ignorecase (p # ps) (c # cs) = (lit_ignorecase p c \<and> prefix_ignorecase ps cs)"

text \<open>
  \<open>\w\<close> of a \<open>str\<close> pattern: ASCII letters, digits and the underscore, and the
  alphanumeric code points beyond ASCII. The table of the latter belongs to the Unicode
  database, not to the repository: it is the parameter \<open>uw\<close>.
\<close>

definition is_word :: "(nat \<Rightarrow> bool) \<Rightarrow> nat \<Rightarrow> bool" where
  "is_word uw c =
     (if c < 128
      then (0x30 \<le> c \<and> c \<le> 0x39) \<or> (0x41 \<le> c \<and> c \<le> 0x5A) \<or> (0x61 \<le> c \<and> c \<le> 0x7A) \<or> c = 0x5F
      else uw c)"

text \<open>\<open>\b\<close> between the code point before the position and the one after it (\<open>None\<close>: no such code point).\<close>

definition word_boundary :: "(nat \<Rightarrow> bool) \<Rightarrow> nat option \<Rightarrow> nat option \<Rightarrow> bool" where
  "word_boundary uw left right =
     ((case left of None \<Rightarrow> False | Some c \<Rightarrow> is_word uw c)
      \<noteq> (case right of None \<Rightarrow> False | Some c \<Rightarrow> is_word uw c))"

definition karat_codes :: "ustring list" where
  "karat_codes = [u ''18KT'', u ''22KT'', u ''24KT'']"

definition nth_opt :: "'a list \<Rightarrow> nat \<Rightarrow> 'a option" where
  "nth_opt xs i = (if i < length xs then Some (xs ! i) else None)"

text \<open>
  The alternatives in the pattern's order at one position, each followed by the closing
  \<open>\b\<close>; the result is group 1, the matched piece of the text itself.
\<close>

fun match_alternatives :: "(nat \<Rightarrow> bool) \<Rightarrow> ustring list \<Rightarrow> ustring \<Rightarrow> ustring option" where
  "match_alternatives uw [] cs = None"
| "match_alternatives uw (p # ps) cs =
     (if prefix_ignorecase p cs
         \<and> word_boundary uw (nth_opt cs (length p - 1)) (nth_opt cs (length p))
      then Some (take (length p) cs)
      else match_alternatives uw ps cs)"

text \<open>\<open>re.search\<close>: the leftmost position where the pattern matches; \<open>left\<close> is the code point before the position.\<close>

fun re_search_karat :: "(nat \<Rightarrow> bool) \<Rightarrow> nat option \<Rightarrow> ustring \<Rightarrow> ustring option" where
  "re_search_karat uw left [] = None"
| "re_search_karat uw left (c # cs) =
     (if word_boundary uw left (Some c)
      then (case match_alternatives uw karat_codes (c # cs) of
              Some m \<Rightarrow> Some m
            | None \<Rightarrow> re_search_karat uw (Some c) cs)
      else re_search_karat uw (Some c) cs)"

text \<open>
  \<open>str.upper\<close> on the matched piece. The piece holds digits, \<open>K\<close>, \<open>k\<close>, \<open>T\<close>, \<open>t\<close> and
  U+212A only; U+212A is an upper-case letter and its own upper case, so beyond ASCII
  nothing changes here.
\<close>

definition upper_cp :: "nat \<Rightarrow> nat" where
  "upper_cp c = (if 0x61 \<le> c \<and> c \<le> 0x7A then c - 32 else c)"

definition extract_karat :: "(nat \<Rightarrow> bool) \<Rightarrow> cell \<Rightarrow> ustring" where
  "extract_karat uw style_no =
     (case style_no of
        Text s \<Rightarrow> (case re_search_karat uw None s of
                     Some m \<Rightarrow> map upper_cp m
                   | None \<Rightarrow> [])
      | _ \<Rightarrow> [])"



section \<open>Text operations the scripts share\<close>

text \<open>\<open>str.isspace\<close> of one code point: the white space \<open>str.strip()\<close> removes.\<close>

definition is_space :: "nat \<Rightarrow> bool" where
  "is_space c =
     ((0x09 \<le> c \<and> c \<le> 0x0D) \<or> (0x1C \<le> c \<and> c \<le> 0x20) \<or> c = 0x85 \<or> c = 0xA0
      \<or> c = 0x1680 \<or> (0x2000 \<le> c \<and> c \<le> 0x200A) \<or> c = 0x2028 \<or> c = 0x2029
      \<or> c = 0x202F \<or> c = 0x205F \<or> c = 0x3000)"

definition py_strip :: "ustring \<Rightarrow> ustring" where
  "py_strip s = rev (dropWhile is_space (rev (dropWhile is_space s)))"

text \<open>
  \<open>str.lower\<close>. It is written out for ASCII and for the two code points beyond ASCII
  whose lower case holds an ASCII letter (U+212A gives \<open>k\<close>, U+0130 gives \<open>i\<close> and
  U+0307). Every other code point beyond ASCII is left as it is: its lower case holds no
  ASCII code point, so tests of the lowered text against the scripts' ASCII keywords and
  names come out as in Python.
\<close>

definition lower_cp :: "nat \<Rightarrow> ustring" where
  "lower_cp c =
     (if 0x41 \<le> c \<and> c \<le> 0x5A then [c + 32]
      else if c = kelvin then [0x6B]
      else if c = 0x130 then [0x69, 0x307]
      else [c])"

definition py_lower :: "ustring \<Rightarrow> ustring" where
  "py_lower s = concat (map lower_cp s)"

text \<open>\<open>s.startswith(p)\<close>.\<close>

fun startswith :: "ustring \<Rightarrow> ustring \<Rightarrow> bool" where
  "startswith s [] = True"
| "startswith [] (p # ps) = False"
| "startswith (c # cs) (p # ps) = (c = p \<and> startswith cs ps)"

text \<open>\<open>kw in s\<close> on texts: \<open>kw\<close> is a contiguous piece of \<open>s\<close>.\<close>

fun py_in :: "ustring \<Rightarrow> ustring \<Rightarrow> bool" where
  "py_in kw [] = (kw = [])"
| "py_in kw (c # cs) = (startswith (c # cs) kw \<or> py_in kw cs)"

text \<open>\<open>any(kw in s for kw in keywords)\<close>.\<close>

definition any_keyword_in :: "ustring list \<Rightarrow> ustring \<Rightarrow> bool" where
  "any_keyword_in keywords s = list_ex (\<lambda>kw. py_in kw s) keywords"

text \<open>\<open>str(cell)\<close>; \<open>str\<close> of pandas' \<open>NaN\<close> is \<open>nan\<close>.\<close>

definition py_str :: "cell \<Rightarrow> ustring" where
  "py_str c = (case c of Text s \<Rightarrow> s | Num r t \<Rightarrow> r | Date r \<Rightarrow> r | Blank \<Rightarrow> u ''nan'')"

text \<open>
  A \<open>for\<close> loop over the rows that leaves at the first row satisfying \<open>P\<close>, with that
  row's index; \<open>None\<close> when the loop runs to its end.
\<close>

fun first_row :: "('a \<Rightarrow> bool) \<Rightarrow> 'a list \<Rightarrow> nat option" where
  "first_row P [] = None"
| "first_row P (r # rs) = (if P r then Some 0 else map_option Suc (first_row P rs))"

section \<open>Data frames\<close>

text \<open>
  A pandas \<open>DataFrame\<close>: the column labels and the rows, each row with one cell per
  column. Labels may repeat.
\<close>

record 'c frame =
  columns :: "ustring list"
  rows :: "'c list list"

definition rectangular :: "'c frame \<Rightarrow> bool" where
  "rectangular f = (\<forall>r \<in> set (rows f). length r = length (columns f))"

datatype error = IndexError | KeyError | ValueError | LabelError | Exception ustring

datatype message = Warning ustring | ErrorMessage ustring

text \<open>\<open>df[col] = v\<close> for a label that is not a column yet: a new last column.\<close>

definition add_column :: "'c frame \<Rightarrow> ustring \<Rightarrow> 'c \<Rightarrow> 'c frame" where
  "add_column f col v = \<lparr>columns = columns f @ [col], rows = map (\<lambda>r. r @ [v]) (rows f)\<rparr>"

definition positions :: "'a \<Rightarrow> 'a list \<Rightarrow> nat list" where
  "positions n cs = filter (\<lambda>j. cs ! j = n) [0..<length cs]"

text \<open>
  \<open>df[names]\<close> with a list of labels: for each name in turn every column that carries
  it, so a repeated label is selected as often as it occurs; a name that is no column
  raises \<open>KeyError\<close>.
\<close>

definition select_columns :: "'c frame \<Rightarrow> ustring list \<Rightarrow> error + 'c frame" where
  "select_columns f names =
     (if \<forall>n \<in> set names. n \<in> set (columns f)
      then Inr \<lparr>columns = concat (map (\<lambda>n. map (\<lambda>j. columns f ! j) (positions n (columns f))) names),
                rows = map (\<lambda>r. concat (map (\<lambda>n. map (\<lambda>j. r ! j) (positions n (columns f))) names))
                         (rows f)\<rparr>
      else Inl KeyError)"

section \<open>deplay-order-report.py\<close>

text \<open>
  The file is read with \<open>dtype=str, keep_default_na=False\<close>: every cell is a text, an
  empty cell the empty text. The raw grid is a list of rows of texts.
\<close>

definition column_keywords :: "(ustring \<times> ustring list) list" where
  "column_keywords =
     [(u ''Order No'', [u ''order no'', u ''orderno'', u ''order #'']),
      (u ''Variant Name'', [u ''variant'', u ''variant name'']),
      (u ''Group No'', [u ''group no'', u ''group'']),
      (u ''Batch No'', [u ''batch no'', u ''batch'']),
      (u ''Actual Metal Wt'', [u ''metal wt'', u ''actual metal'']),
      (u ''Dept Name'', [u ''dept'', u ''department'']),
      (u ''Jobworker'', [u ''jobworker'', u ''worker'']),
      (u ''Req Purity'', [u ''req purity'', u ''purity'']),
      (u ''Shipment Date'', [u ''shipment date'', u ''ship date'']),
      (u ''Order Date'', [u ''order date'', u ''date'']),
      (u ''Shipment Days'', [u ''shipment days'', u ''ship days'']),
      (u ''Order Days'', [u ''order days'', u ''days''])]"

text \<open>
  \<open>matches = sum(any(kw in str(x).strip().lower() for kw in keywords)
                 for x in row for key, keywords in column_keywords.items())\<close>:
  one is added for every pair of a cell and a column that hit.
\<close>

definition matches :: "ustring list \<Rightarrow> nat" where
  "matches row =
     length (filter (\<lambda>(x, key, keywords). any_keyword_in keywords (py_lower (py_strip x)))
               (List.product row column_keywords))"

definition header_row_index :: "ustring list list \<Rightarrow> nat option" where
  "header_row_index df = first_row (\<lambda>row. matches row \<ge> length column_keywords div 2) df"

text \<open>The index used as header and what \<open>st.warning\<close> showed.\<close>

definition detect_header :: "ustring list list \<Rightarrow> nat \<times> message list" where
  "detect_header df =
     (case header_row_index df of
        Some i \<Rightarrow> (i, [])
      | None \<Rightarrow> (0, [Warning (u ''Header row not found. Using first row as header.'')]))"

text \<open>Step 4: the new label of one header cell, the first column whose keywords hit.\<close>

definition map_label :: "ustring \<Rightarrow> ustring" where
  "map_label col =
     (case find (\<lambda>(key, keywords). any_keyword_in keywords (py_lower (py_strip col))) column_keywords of
        Some (key, keywords) \<Rightarrow> key
      | None \<Rightarrow> col)"

text \<open>Step 5, the loop: a column of empty texts for every required label that is missing.\<close>

definition ensure_columns :: "ustring frame \<Rightarrow> ustring list \<Rightarrow> ustring frame" where
  "ensure_columns f names =
     fold (\<lambda>col g. if col \<in> set (columns g) then g else add_column g col []) names f"

text \<open>
  Steps 3 to 5: the header is found, the labels are mapped, the rows below the header
  are kept, the missing columns are added and the required ones selected in the order of
  \<open>column_keywords\<close>. \<open>df.iloc[header_row_index]\<close> raises \<open>IndexError\<close> when there is no
  such row.
\<close>

definition reconcile :: "ustring list list \<Rightarrow> error + ustring frame" where
  "reconcile df =
     (let h = fst (detect_header df) in
      if h < length df
      then select_columns
             (ensure_columns \<lparr>columns = map map_label (df ! h), rows = drop (h + 1) df\<rparr>
                (map fst column_keywords))
             (map fst column_keywords)
      else Inl IndexError)"

text \<open>
  The count the specification describes: the number of canonical columns for which at
  least one cell of the row holds one of the column's keywords.
\<close>

definition spec_column_hits :: "ustring list \<Rightarrow> nat" where
  "spec_column_hits row =
     length (filter (\<lambda>(key, keywords). list_ex (\<lambda>x. any_keyword_in keywords (py_lower (py_strip x))) row)
               column_keywords)"

text \<open>
  Step 6: \<open>str.contains("grand total", case=False)\<close> on every cell. None of the
  pattern's letters has a case variant beyond ASCII, so a code point matches a letter of
  the pattern exactly when its ASCII lower case is that letter.
\<close>

definition ascii_fold :: "nat \<Rightarrow> nat" where
  "ascii_fold c = (if 0x41 \<le> c \<and> c \<le> 0x5A then c + 32 else c)"

definition contains_grand_total :: "ustring \<Rightarrow> bool" where
  "contains_grand_total s = py_in (u ''grand total'') (map ascii_fold s)"

definition drop_grand_total :: "ustring frame \<Rightarrow> ustring frame" where
  "drop_grand_total f = f\<lparr>rows := filter (\<lambda>r. \<not> list_ex contains_grand_total r) (rows f)\<rparr>"

text \<open>
  Step 7. \<open>df["Order Days"]\<close> is one column when the label occurs once. When it is
  repeated the selection is a frame and the step, or at the latest \<open>.str\<close> in step 8,
  raises: \<open>LabelError\<close> stands for that exception.
\<close>

definition unwanted_values :: "ustring list" where
  "unwanted_values =
     [[], u ''(1.00)'', u ''(2.00)'', u ''(3.00)'', u ''(4.00)'', u ''(5.00)'',
      u ''(6.00)'', u ''(7.00)'', u ''(8.00)'', u ''(9.00)'']"

definition filter_order_days :: "ustring frame \<Rightarrow> error + ustring frame" where
  "filter_order_days f =
     (case positions (u ''Order Days'') (columns f) of
        [] \<Rightarrow> Inl KeyError
      | [j] \<Rightarrow> Inr (f\<lparr>rows := filter (\<lambda>r. r ! j \<notin> set unwanted_values) (rows f)\<rparr>)
      | _ \<Rightarrow> Inl LabelError)"

text \<open>
  Step 8, the key: \<open>.str.replace("(", "").str.replace(")", "").astype(float)\<close>.
  \<open>is_float_literal\<close> is the grammar \<open>float()\<close> accepts: white space around, an
  optional sign, then \<open>inf\<close>, \<open>infinity\<close> or \<open>nan\<close> in any case, or digits with an
  optional point and exponent, single underscores between digits. (Python also reads
  decimal digits beyond ASCII; the model reads the ASCII digits.) The key is kept as the
  accepted text: the double it denotes is not computed.
\<close>

definition is_digit :: "nat \<Rightarrow> bool" where
  "is_digit c = (0x30 \<le> c \<and> c \<le> 0x39)"

text \<open>After one digit: the rest of a run of digits with single underscores between them.\<close>

fun digits_tail :: "ustring \<Rightarrow> ustring" where
  "digits_tail [] = []"
| "digits_tail [c] = (if is_digit c then [] else [c])"
| "digits_tail (c # d # cs) =
     (if is_digit c then digits_tail (d # cs)
      else if c = 0x5F \<and> is_digit d then digits_tail cs
      else c # d # cs)"

definition digitpart :: "ustring \<Rightarrow> ustring option" where
  "digitpart s = (case s of [] \<Rightarrow> None | c # cs \<Rightarrow> if is_digit c then Some (digits_tail cs) else None)"

text \<open>\<open>[digitpart] "." digitpart | digitpart ["."]\<close>; the result is what follows the number.\<close>

definition number_rest :: "ustring \<Rightarrow> ustring option" where
  "number_rest s =
     (case digitpart s of
        Some r \<Rightarrow>
          (case r of
             [] \<Rightarrow> Some []
           | c # r' \<Rightarrow>
               if c = 0x2E
               then (case digitpart r' of Some r'' \<Rightarrow> Some r'' | None \<Rightarrow> Some r')
               else Some r)
      | None \<Rightarrow>
          (case s of [] \<Rightarrow> None | c # r' \<Rightarrow> if c = 0x2E then digitpart r' else None))"

definition strip_sign :: "ustring \<Rightarrow> ustring" where
  "strip_sign s = (case s of [] \<Rightarrow> [] | c # r \<Rightarrow> if c = 0x2B \<or> c = 0x2D then r else s)"

text \<open>Nothing, or \<open>e\<close> or \<open>E\<close>, an optional sign and digits up to the end.\<close>

definition exponent_ok :: "ustring \<Rightarrow> bool" where
  "exponent_ok r =
     (case r of
        [] \<Rightarrow> True
      | c # r' \<Rightarrow> (c = 0x65 \<or> c = 0x45) \<and> digitpart (strip_sign r') = Some [])"

definition is_float_literal :: "ustring \<Rightarrow> bool" where
  "is_float_literal s =
     (let t = strip_sign (py_strip s) in
      map ascii_fold t \<in> {u ''inf'', u ''infinity'', u ''nan''}
      \<or> (case number_rest t of Some r \<Rightarrow> exponent_ok r | None \<Rightarrow> False))"

definition order_days_sort_key :: "ustring \<Rightarrow> error + ustring" where
  "order_days_sort_key s =
     (let t = filter (\<lambda>c. c \<noteq> 0x28 \<and> c \<noteq> 0x29) s in
      if is_float_literal t then Inr t else Inl ValueError)"

text \<open>\<open>astype(float)\<close> on the whole column: the first text that is no float raises.\<close>

fun astype_float :: "ustring list \<Rightarrow> error + ustring list" where
  "astype_float [] = Inr []"
| "astype_float (s # ss) =
     (case order_days_sort_key s of
        Inl e \<Rightarrow> Inl e
      | Inr k \<Rightarrow> (case astype_float ss of Inl e \<Rightarrow> Inl e | Inr ks \<Rightarrow> Inr (k # ks)))"

definition order_days_sort_keys :: "ustring frame \<Rightarrow> error + ustring list" where
  "order_days_sort_keys f =
     (case positions (u ''Order Days'') (columns f) of
        [] \<Rightarrow> Inl KeyError
      | [j] \<Rightarrow> astype_float (map (\<lambda>r. r ! j) (rows f))
      | _ \<Rightarrow> Inl LabelError)"

text \<open>
  The run from the raw grid up to the sort keys of step 8: the frame that is to be
  sorted and the key of each of its rows, or the exception that ends the run. Nothing in
  the script catches an exception of these steps.
\<close>

definition report_to_sort_keys :: "ustring list list \<Rightarrow> error + (ustring frame \<times> ustring list)" where
  "report_to_sort_keys df =
     (case reconcile df of
        Inl e \<Rightarrow> Inl e
      | Inr f \<Rightarrow>
          (case filter_order_days (drop_grand_total f) of
             Inl e \<Rightarrow> Inl e
           | Inr g \<Rightarrow>
               (case order_days_sort_keys g of
                  Inl e \<Rightarrow> Inl e
                | Inr keys \<Rightarrow> Inr (g, keys))))"

section \<open>factory-out.py and lot-rejection.py\<close>

text \<open>
  These two read the file with pandas' own types: a cell is a \<open>cell\<close>. Their
  \<open>find_header_row\<close>, \<open>extract_grand_total_row\<close> and column mapping are the same code
  over different \<open>FIXED_COLUMNS\<close>, which the model takes as the argument \<open>fixed\<close>.
\<close>

definition FIXED_COLUMNS_factory_out :: "ustring list" where
  "FIXED_COLUMNS_factory_out =
     [u ''Trans Date'', u ''Doc No'', u ''Party Name'', u ''Style No'', u ''Karat'',
      u ''Variant Name'', u ''Net Wt'', u ''Wastage Perc'', u ''Pg Wt'', u ''Pg Wastage Wt'',
      u ''Line Remark'']"

definition FIXED_COLUMNS_lot_rejection :: "ustring list" where
  "FIXED_COLUMNS_lot_rejection =
     [u ''Trans Date'', u ''Order No'', u ''Group No'', u ''Style Name'', u ''Karat'',
      u ''Wt'', u ''Operation Name'', u ''Wc Name'', u ''User Name'', u ''Remark'']"

text \<open>\<open>found_columns\<close> at the end of the inner loop, for one row.\<close>

definition found_columns :: "ustring list \<Rightarrow> cell list \<Rightarrow> nat" where
  "found_columns fixed row =
     (let row_values = map (\<lambda>c. py_lower (py_strip (py_str c))) (filter (\<lambda>c. c \<noteq> Blank) row)
      in length (filter (\<lambda>col. list_ex (\<lambda>cell_value. py_in (py_lower col) cell_value) row_values) fixed))"

text \<open>
  \<open>found_columns >= len(FIXED_COLUMNS) * 0.6\<close>, in integers. The product is the double
  6.0 for ten columns and the double just above 6.6 for eleven, so for both lists the
  test is \<open>10 * found_columns \<ge> 6 * len\<close>.
\<close>

definition meets_threshold :: "ustring list \<Rightarrow> cell list \<Rightarrow> bool" where
  "meets_threshold fixed row = (10 * found_columns fixed row \<ge> 6 * length fixed)"

definition find_header_row :: "ustring list \<Rightarrow> cell list list \<Rightarrow> nat" where
  "find_header_row fixed df =
     (case first_row (meets_threshold fixed) df of Some idx \<Rightarrow> idx | None \<Rightarrow> 0)"

definition extract_grand_total_row :: "cell list list \<Rightarrow> cell list option" where
  "extract_grand_total_row df =
     find (\<lambda>row. list_ex (\<lambda>c. c \<noteq> Blank \<and> py_in (u ''grand total'') (py_lower (py_str c))) row) df"

text \<open>
  \<open>pd.read_excel(uploaded_file, header=h)\<close>: the labels come from row \<open>h\<close>, the rows
  are the ones below it, column \<open>j\<close> of the frame is column \<open>j\<close> of the sheet. An empty
  header cell is labelled \<open>Unnamed: j\<close>. pandas also renames a label that repeats
  (\<open>X\<close>, \<open>X.1\<close>); the model keeps it, so it is exact for header rows whose labels differ.
  A sheet without row \<open>h\<close> gives the empty frame.
\<close>

fun decimal :: "nat \<Rightarrow> ustring" where
  "decimal n = (if n < 10 then [0x30 + n] else decimal (n div 10) @ [0x30 + n mod 10])"

definition header_label :: "nat \<Rightarrow> cell \<Rightarrow> ustring" where
  "header_label j c = (case c of Blank \<Rightarrow> u ''Unnamed: '' @ decimal j | _ \<Rightarrow> py_str c)"

definition read_excel_header :: "cell list list \<Rightarrow> nat \<Rightarrow> cell frame" where
  "read_excel_header df h =
     (if h < length df
      then \<lparr>columns = map (\<lambda>j. header_label j (df ! h ! j)) [0..<length (df ! h)],
            rows = drop (h + 1) df\<rparr>
      else \<lparr>columns = [], rows = []\<rparr>)"

text \<open>\<open>df.columns = [str(col).strip() for col in df.columns]\<close>.\<close>

definition strip_labels :: "'c frame \<Rightarrow> 'c frame" where
  "strip_labels f = f\<lparr>columns := map py_strip (columns f)\<rparr>"

text \<open>\<open>re.sub(r'[^a-z]', '', s)\<close>.\<close>

definition alpha_only :: "ustring \<Rightarrow> ustring" where
  "alpha_only s = filter (\<lambda>c. 0x61 \<le> c \<and> c \<le> 0x7A) s"

text \<open>The test of the mapping loop for one fixed column and one label.\<close>

definition name_matches :: "ustring \<Rightarrow> ustring \<Rightarrow> bool" where
  "name_matches fixed_col col =
     (let fixed_col_lower = py_lower fixed_col; col_lower = py_lower col in
      py_in fixed_col_lower col_lower \<or> py_in col_lower fixed_col_lower
      \<or> py_in (alpha_only fixed_col_lower) (alpha_only col_lower))"

text \<open>\<open>column_mapping\<close> and \<open>df.rename(columns=column_mapping)\<close>: the first fixed column that matches, else the label itself.\<close>

definition rename_label :: "ustring list \<Rightarrow> ustring \<Rightarrow> ustring" where
  "rename_label fixed col = (case find (\<lambda>fixed_col. name_matches fixed_col col) fixed of
                               Some fixed_col \<Rightarrow> fixed_col | None \<Rightarrow> col)"

definition rename_columns :: "ustring list \<Rightarrow> 'c frame \<Rightarrow> 'c frame" where
  "rename_columns fixed f = f\<lparr>columns := map (rename_label fixed) (columns f)\<rparr>"

text \<open>lot-rejection.py, lines 64 to 85: the labels are cleaned and renamed, the fixed columns that are present are kept.\<close>

definition lot_reconcile :: "cell frame \<Rightarrow> error + cell frame" where
  "lot_reconcile df =
     (let g = rename_columns FIXED_COLUMNS_lot_rejection (strip_labels df);
          available_cols = filter (\<lambda>col. col \<in> set (columns g)) FIXED_COLUMNS_lot_rejection
      in select_columns g available_cols)"

text \<open>factory-out.py, lines 166 to 187: the same without the Karat column.\<close>

definition factory_reconcile :: "cell frame \<Rightarrow> error + cell frame" where
  "factory_reconcile df =
     (let g = rename_columns FIXED_COLUMNS_factory_out (strip_labels df);
          available_cols = filter (\<lambda>col. col \<in> set (columns g) \<and> col \<noteq> u ''Karat'')
                             FIXED_COLUMNS_factory_out
      in select_columns g available_cols)"

text \<open>
  Lines 189 to 196: the Karat column is computed from Style No and inserted after it.
  With a repeated Style No label \<open>df["Style No"]\<close> is a frame and the step raises.
\<close>

definition insert_karat :: "(nat \<Rightarrow> bool) \<Rightarrow> cell frame \<Rightarrow> error + cell frame" where
  "insert_karat uw g =
     (case positions (u ''Style No'') (columns g) of
        [] \<Rightarrow> Inr g
      | [j] \<Rightarrow> Inr \<lparr>columns = take (j + 1) (columns g) @ [u ''Karat''] @ drop (j + 1) (columns g),
                    rows = map (\<lambda>r. take (j + 1) r @ [Text (extract_karat uw (r ! j))] @ drop (j + 1) r)
                             (rows g)\<rparr>
      | _ \<Rightarrow> Inl LabelError)"

definition clean_trans_date :: "cell \<Rightarrow> cell" where
  "clean_trans_date date_value =
     (case date_value of
        Blank \<Rightarrow> Text []
      | _ \<Rightarrow> (let date_str = py_str date_value in
              if 0x20 \<in> set date_str \<and> (0x3A \<in> set date_str \<or> py_in (u ''00:00:00'') date_str)
              then Text (takeWhile (\<lambda>c. c \<noteq> 0x20) date_str)
              else Text date_str))"

definition clean_trans_dates :: "cell frame \<Rightarrow> error + cell frame" where
  "clean_trans_dates g =
     (case positions (u ''Trans Date'') (columns g) of
        [] \<Rightarrow> Inr g
      | [j] \<Rightarrow> Inr (g\<lparr>rows := map (\<lambda>r. r[j := clean_trans_date (r ! j)]) (rows g)\<rparr>)
      | _ \<Rightarrow> Inl LabelError)"

text \<open>
  Lines 203 to 214. \<open>df[col].dtype\<close> raises on a repeated label; the columns of dtype
  object are the ones that hold a text, so the loop strips every text cell. Then the rows
  without any value are dropped, the empty cells filled with the empty text, and the rows
  whose first cell holds "grand total" removed; \<open>df.iloc[:, 0]\<close> raises without a column.
\<close>

definition strip_cell :: "cell \<Rightarrow> cell" where
  "strip_cell c = (case c of Text s \<Rightarrow> Text (py_strip s) | _ \<Rightarrow> c)"

definition fill_cell :: "cell \<Rightarrow> cell" where
  "fill_cell c = (case c of Blank \<Rightarrow> Text [] | _ \<Rightarrow> c)"

definition clean_rows :: "cell frame \<Rightarrow> error + cell frame" where
  "clean_rows g =
     (if \<not> distinct (columns g) then Inl LabelError
      else if columns g = [] then Inl IndexError
      else Inr (g\<lparr>rows :=
             filter (\<lambda>r. \<not> contains_grand_total (py_str (r ! 0)))
               (map (map fill_cell)
                  (filter (\<lambda>r. \<not> list_all (\<lambda>c. c = Blank) r)
                     (map (map strip_cell) (rows g))))\<rparr>))"

text \<open>The body of \<open>try\<close> in factory-out's \<open>process_excel\<close>, after the file is read.\<close>

definition factory_process_frame :: "(nat \<Rightarrow> bool) \<Rightarrow> cell frame \<Rightarrow> error + cell frame" where
  "factory_process_frame uw df =
     (case factory_reconcile df of
        Inl e \<Rightarrow> Inl e
      | Inr g \<Rightarrow>
          (case insert_karat uw g of
             Inl e \<Rightarrow> Inl e
           | Inr g' \<Rightarrow> (case clean_trans_dates g' of Inl e \<Rightarrow> Inl e | Inr g'' \<Rightarrow> clean_rows g'')))"

text \<open>
  \<open>process_excel\<close>: the frame, the grand total row taken from the raw grid, and the
  message shown. Any exception is caught and gives the empty frame over the fixed columns
  and an error message, which ends with the text of the exception (left out here).
\<close>

definition factory_process_excel ::
    "(nat \<Rightarrow> bool) \<Rightarrow> cell list list \<Rightarrow> cell frame \<times> cell list option \<times> message list" where
  "factory_process_excel uw raw =
     (let grand_total_row = extract_grand_total_row raw;
          header_row_idx = find_header_row FIXED_COLUMNS_factory_out raw
      in case factory_process_frame uw (read_excel_header raw header_row_idx) of
           Inl e \<Rightarrow> (\<lparr>columns = FIXED_COLUMNS_factory_out, rows = []\<rparr>, None,
                      [ErrorMessage (u ''Error processing file: '')])
         | Inr df \<Rightarrow> (df, grand_total_row, []))"

text \<open>
  \<open>create_download_file\<close>, as far as values go: the header line, the body, and the
  grand total line, whose cell under output column \<open>col_num\<close> is cell \<open>col_num\<close> of the
  raw grand total row. \<open>safe_write_cell\<close> writes the empty text for an empty cell.
\<close>

record sheet =
  sheet_header :: "ustring list"
  sheet_body :: "cell list list"
  sheet_total :: "cell list option"

definition safe_write_cell :: "cell \<Rightarrow> cell" where
  "safe_write_cell v = (case v of Blank \<Rightarrow> Text [] | _ \<Rightarrow> v)"

definition grand_total_cells :: "cell frame \<Rightarrow> cell list \<Rightarrow> cell list" where
  "grand_total_cells df grand_total_row =
     map (\<lambda>col_num. if col_num < length grand_total_row
                     then safe_write_cell (grand_total_row ! col_num)
                     else Text [])
       [0..<length (columns df)]"

definition create_download_file :: "cell frame \<Rightarrow> cell list option \<Rightarrow> sheet" where
  "create_download_file df grand_total_row =
     \<lparr>sheet_header = columns df,
      sheet_body = map (map safe_write_cell) (rows df),
      sheet_total = map_option (grand_total_cells df) grand_total_row\<rparr>"

text \<open>\<open>main\<close>: a file is made when the frame is not empty.\<close>

definition factory_out :: "(nat \<Rightarrow> bool) \<Rightarrow> cell list list \<Rightarrow> sheet option" where
  "factory_out uw raw =
     (case factory_process_excel uw raw of
        (df, grand_total_row, msgs) \<Rightarrow>
          if rows df = [] \<or> columns df = [] then None
          else Some (create_download_file df grand_total_row))"

section \<open>loss.py and scrap-dc-report.py\<close>

text \<open>
  loss.py reads the cells with openpyxl; \<open>Blank\<close> is \<open>None\<close>. \<open>truthy\<close> is the test
  \<open>if cell\<close>.
\<close>

definition truthy :: "cell \<Rightarrow> bool" where
  "truthy c = (case c of Blank \<Rightarrow> False | Text s \<Rightarrow> s \<noteq> [] | Num r t \<Rightarrow> t | Date r \<Rightarrow> True)"



definition required_columns :: "ustring list" where
  "required_columns =
     [u ''Wc Name'', u ''Issue Quantity Pg'', u ''Process Quantity Pg'', u ''Unutilized Quantity Pg'',
      u ''Unutilized Quantity Sample Pg'', u ''Unutilized Quantity Scrap Pg'', u ''Loss Quantity Pg'',
      u ''Gain Pg'', u ''FINAL LOSS'', u ''LOSS %'']"

text \<open>\<open>s.lower().replace(" ", "")\<close>.\<close>

definition compress :: "ustring \<Rightarrow> ustring" where
  "compress s = filter (\<lambda>c. c \<noteq> 0x20) (py_lower s)"

definition headers_old :: "cell list \<Rightarrow> ustring list" where
  "headers_old row = map (\<lambda>c. if truthy c then py_strip (py_str c) else []) row"

text \<open>
  \<open>col_index_map.get(col_name)\<close>: the first header that holds the compressed name, for
  the required columns but the last two, which are not keys of the map.
\<close>

definition col_index_map :: "ustring list \<Rightarrow> ustring \<Rightarrow> nat option" where
  "col_index_map hs col_name =
     (if col_name \<in> set (butlast (butlast required_columns))
      then (case filter (\<lambda>idx. hs ! idx \<noteq> [] \<and> py_in (compress col_name) (compress (hs ! idx)))
                   [0..<length hs] of
              [] \<Rightarrow> None
            | idx # _ \<Rightarrow> Some idx)
      else None)"

text \<open>The source index a value of the new sheet is copied from, for a row of the old sheet.\<close>

definition copied_from :: "ustring list \<Rightarrow> cell list \<Rightarrow> ustring \<Rightarrow> nat option" where
  "copied_from hs old_row col_name =
     (case col_index_map hs col_name of
        Some old_idx \<Rightarrow> if old_idx < length old_row then Some old_idx else None
      | None \<Rightarrow> None)"

text \<open>
  Lines 180 to 208, for one cell: a total row copies the value, a data row writes the two
  formulas, rounds a number to four places and copies anything else. The source index is
  the same \<open>copied_from\<close> in both.
\<close>

datatype written = Nothing | Copied cell | Rounded cell | Formula

definition loss_total_cell :: "ustring list \<Rightarrow> cell list \<Rightarrow> ustring \<Rightarrow> written" where
  "loss_total_cell hs old_row col_name =
     (case copied_from hs old_row col_name of
        Some old_idx \<Rightarrow> Copied (old_row ! old_idx)
      | None \<Rightarrow> Nothing)"

definition loss_data_cell :: "ustring list \<Rightarrow> cell list \<Rightarrow> ustring \<Rightarrow> written" where
  "loss_data_cell hs old_row col_name =
     (if col_name = u ''FINAL LOSS'' \<or> col_name = u ''LOSS %'' then Formula
      else (case copied_from hs old_row col_name of
              Some old_idx \<Rightarrow> (case old_row ! old_idx of
                                Num r t \<Rightarrow> Rounded (Num r t)
                              | v \<Rightarrow> Copied v)
            | None \<Rightarrow> Nothing))"




section \<open>Example inputs\<close>

text \<open>
  A delay-order sheet whose first row is a line of dates and whose second row holds six
  of the column labels.
\<close>

definition dates_row :: "ustring list" where
  "dates_row = [u ''Print Date'', u ''From Date'', u ''To Date'', u ''Due Date'', u ''Date'', u ''Date'']"

definition labels_row :: "ustring list" where
  "labels_row =
     [u ''Order No'', u ''Variant Name'', u ''Group No'', u ''Batch No'', u ''Dept Name'', u ''Order Days'']"

text \<open>A sheet in which no row looks like a header to any of the tools.\<close>

definition plain_texts :: "ustring list list" where
  "plain_texts = [[u ''Item'', u ''Qty'']]"

definition plain_cells :: "cell list list" where
  "plain_cells = [[Text (u ''Item''), Text (u ''Qty'')]]"

section \<open>Properties of \<open>extract_karat\<close>\<close>















section \<open>Loops over rows and frames\<close>

lemmas text_eval = u_def py_strip_def py_lower_def lower_cp_def is_space_def kelvin_def
  any_keyword_in_def

lemma first_row_None_iff: "first_row P rs = None \<longleftrightarrow> (\<forall>r \<in> set rs. \<not> P r)"
  by (induction rs) auto

text \<open>The loop leaves at the lowest index whose row satisfies the test.\<close>

lemma first_row_Some:
  "first_row P rs = Some i \<Longrightarrow> i < length rs \<and> P (rs ! i) \<and> (\<forall>j < i. \<not> P (rs ! j))"
proof (induction rs arbitrary: i)
  case Nil
  then show ?case by simp
next
  case (Cons r rs)
  show ?case
  proof (cases "P r")
    case True
    with Cons.prems show ?thesis by simp
  next
    case False
    with Cons.prems obtain k where k: "first_row P rs = Some k" "i = Suc k"
      by auto
    from Cons.IH[OF k(1)] False k(2) show ?thesis
      by (auto simp: nth_Cons split: nat.splits)
  qed
qed

lemma filter_eq_index: "i < n \<Longrightarrow> filter (\<lambda>j. j = i) [0..<n] = [i]"
  by (induction n) (auto simp: less_Suc_eq)

lemma positions_distinct:
  assumes "distinct cs" "i < length cs"
  shows "positions (cs ! i) cs = [i]"
proof -
  have "filter (\<lambda>j. cs ! j = cs ! i) [0..<length cs] = filter (\<lambda>j. j = i) [0..<length cs]"
    using assms by (intro filter_cong) (auto simp: nth_eq_iff_index_eq)
  with assms(2) show ?thesis
    by (simp add: positions_def filter_eq_index)
qed

lemma select_all_row:
  assumes "distinct cs" "length xs = length cs"
  shows "concat (map (\<lambda>n. map (\<lambda>j. xs ! j) (positions n cs)) cs) = xs"
proof -
  have "map (\<lambda>n. map (\<lambda>j. xs ! j) (positions n cs)) cs
        = map (\<lambda>n. map (\<lambda>j. xs ! j) (positions n cs)) (map (\<lambda>i. cs ! i) [0..<length cs])"
    by (simp only: map_nth)
  also have "\<dots> = map (\<lambda>i. map (\<lambda>j. xs ! j) (positions (cs ! i) cs)) [0..<length cs]"
    by (simp add: comp_def)
  also have "\<dots> = map (\<lambda>i. [xs ! i]) [0..<length cs]"
    using assms(1) by (intro map_cong refl) (simp add: positions_distinct)
  finally have "map (\<lambda>n. map (\<lambda>j. xs ! j) (positions n cs)) cs = map (\<lambda>i. [xs ! i]) [0..<length cs]" .
  then have "concat (map (\<lambda>n. map (\<lambda>j. xs ! j) (positions n cs)) cs) = map (\<lambda>i. xs ! i) [0..<length cs]"
    by (simp add: concat_map_singleton)
  with assms(2) show ?thesis using map_nth[of xs] by simp
qed

text \<open>Selecting all the labels of a frame whose labels differ gives the frame back.\<close>

lemma select_columns_all:
  assumes "distinct (columns f)" "rectangular f"
  shows "select_columns f (columns f) = Inr f"
proof -
  have c: "concat (map (\<lambda>n. map (\<lambda>j. columns f ! j) (positions n (columns f))) (columns f)) = columns f"
    using assms(1) by (simp add: select_all_row)
  have r: "map (\<lambda>r. concat (map (\<lambda>n. map (\<lambda>j. r ! j) (positions n (columns f))) (columns f))) (rows f) = rows f"
    using assms by (intro map_idI) (simp add: select_all_row rectangular_def)
  show ?thesis
    by (simp add: select_columns_def c r)
qed

lemma ensure_columns_mono: "set (columns f) \<subseteq> set (columns (ensure_columns f names))"
proof (induction names arbitrary: f)
  case Nil
  show ?case by (simp add: ensure_columns_def)
next
  case (Cons n ns)
  have "ensure_columns f (n # ns)
        = ensure_columns (if n \<in> set (columns f) then f else add_column f n []) ns"
    by (simp add: ensure_columns_def)
  moreover have "set (columns f) \<subseteq> set (columns (if n \<in> set (columns f) then f else add_column f n []))"
    by (auto simp: add_column_def)
  ultimately show ?case using Cons.IH by (metis subset_trans)
qed

lemma ensure_columns_present: "set names \<subseteq> set (columns (ensure_columns f names))"
proof (induction names arbitrary: f)
  case Nil
  show ?case by simp
next
  case (Cons n ns)
  let ?g = "if n \<in> set (columns f) then f else add_column f n []"
  have e: "ensure_columns f (n # ns) = ensure_columns ?g ns"
    by (simp add: ensure_columns_def)
  have "n \<in> set (columns ?g)" by (auto simp: add_column_def)
  then have "n \<in> set (columns (ensure_columns ?g ns))"
    using ensure_columns_mono by blast
  with Cons.IH[of ?g] e show ?case by simp
qed

section \<open>Header detection\<close>


text \<open>
  \<open>find_header_row\<close> of factory-out.py and lot-rejection.py does what the specification
  describes: \<open>found_columns\<close> counts fixed columns, and when some row meets the threshold
  the result is the lowest index of such a row.
\<close>

lemma find_header_row_first_qualifying:
  assumes "\<exists>row \<in> set raw. meets_threshold fixed row"
  shows "find_header_row fixed raw < length raw
         \<and> meets_threshold fixed (raw ! find_header_row fixed raw)
         \<and> (\<forall>j < find_header_row fixed raw. \<not> meets_threshold fixed (raw ! j))"
proof -
  from assms obtain i where i: "first_row (meets_threshold fixed) raw = Some i"
    using first_row_None_iff[of "meets_threshold fixed" raw]
    by (cases "first_row (meets_threshold fixed) raw") auto
  then have "find_header_row fixed raw = i"
    by (simp add: find_header_row_def)
  with first_row_Some[OF i] show ?thesis by simp
qed

lemma matches_dates_row: "matches dates_row = 6"
  by (simp add: matches_def column_keywords_def dates_row_def text_eval)

text \<open>
  C1 fails in deplay-order-report.py. Its detector adds one for every pair of a cell and
  a column that hit, not one for every column with a hit. Six cells that each hold
  \<open>date\<close> hit the single column Order Date six times: the row reaches the threshold of
  6 and is taken as the header (index 0, no warning), although only one canonical column
  has a hit in it. The row the claim describes, the first with hits in at least six
  columns, is the one at index 1.
\<close>

theorem delay_header_counts_pairs:
  "matches dates_row = 6
   \<and> spec_column_hits dates_row = 1
   \<and> spec_column_hits labels_row = 6
   \<and> length column_keywords div 2 = 6
   \<and> header_row_index [dates_row, labels_row] = Some 0
   \<and> detect_header [dates_row, labels_row] = (0, [])"
proof -
  have 1: "spec_column_hits dates_row = 1"
    by (simp add: spec_column_hits_def column_keywords_def dates_row_def text_eval)
  have 2: "spec_column_hits labels_row = 6"
    by (simp add: spec_column_hits_def column_keywords_def labels_row_def text_eval)
  have 3: "length column_keywords div 2 = 6"
    by (simp add: column_keywords_def)
  have 4: "header_row_index [dates_row, labels_row] = Some 0"
    by (simp add: header_row_index_def matches_dates_row 3)
  from 1 2 3 4 matches_dates_row show ?thesis
    by (simp add: detect_header_def)
qed

text \<open>
  C8, as stated, fails for the grid without rows: both detectors return 0, which is the
  index of no row, and the delay-order script then stops on \<open>df.iloc[0]\<close>.
\<close>

theorem header_index_empty_grid_counterexample:
  "\<not> find_header_row FIXED_COLUMNS_factory_out [] < length ([] :: cell list list)
   \<and> \<not> fst (detect_header []) < length ([] :: ustring list list)
   \<and> reconcile [] = Inl IndexError"
  by (simp add: find_header_row_def detect_header_def header_row_index_def reconcile_def)

text \<open>
  C8, amended. For every grid that has at least one row the detectors return the index
  of an existing row, the fallback 0 included. For the grid without rows they return 0.
\<close>

theorem header_index_in_bounds:
  "(df \<noteq> [] \<longrightarrow> fst (detect_header df) < length df)
   \<and> (raw \<noteq> [] \<longrightarrow> find_header_row fixed raw < length raw)
   \<and> fst (detect_header []) = 0
   \<and> find_header_row fixed [] = 0"
  using first_row_Some[of _ df] first_row_Some[of _ raw]
  by (auto simp: detect_header_def header_row_index_def find_header_row_def split: option.splits)

theorem header_index_in_bounds_witness:
  "plain_texts \<noteq> [] \<and> fst (detect_header plain_texts) < length plain_texts
   \<and> plain_cells \<noteq> [] \<and> find_header_row FIXED_COLUMNS_factory_out plain_cells < length plain_cells"
proof -
  have "plain_texts \<noteq> []" "plain_cells \<noteq> []"
    by (simp_all add: plain_texts_def plain_cells_def)
  with header_index_in_bounds[of plain_texts plain_cells FIXED_COLUMNS_factory_out]
  show ?thesis by simp
qed




section \<open>Selecting and adding columns\<close>

lemma positions_snoc:
  "positions k (xs @ [x]) = positions k xs @ (if x = k then [length xs] else [])"
proof -
  have "filter (\<lambda>j. (xs @ [x]) ! j = k) [0..<length xs] = filter (\<lambda>j. xs ! j = k) [0..<length xs]"
    by (intro filter_cong refl) (simp add: nth_append)
  then show ?thesis
    by (simp add: positions_def)
qed

lemma positions_length: "length (positions k xs) = count_list xs k"
proof (induction xs rule: rev_induct)
  case Nil
  show ?case by (simp add: positions_def)
next
  case (snoc x xs)
  then show ?case by (simp add: positions_snoc)
qed

lemma positions_nth: "j \<in> set (positions k xs) \<Longrightarrow> j < length xs \<and> xs ! j = k"
  by (simp add: positions_def)

lemma positions_empty: "k \<notin> set xs \<Longrightarrow> positions k xs = []"
  unfolding positions_def filter_empty_conv by (metis atLeastLessThan_iff nth_mem set_upt)

lemma positions_append:
  "positions k (xs @ ys) = positions k xs @ map (\<lambda>j. length xs + j) (positions k ys)"
proof (induction ys rule: rev_induct)
  case Nil
  show ?case by (simp add: positions_def)
next
  case (snoc y ys)
  have "positions k (xs @ ys @ [y]) = positions k ((xs @ ys) @ [y])" by simp
  also have "\<dots> = positions k (xs @ ys) @ (if y = k then [length (xs @ ys)] else [])"
    by (rule positions_snoc)
  finally show ?case
    using snoc.IH by (simp add: positions_snoc)
qed


lemma positions_single:
  assumes "k \<in> set xs" "count_list xs k \<le> 1"
  shows "\<exists>j. positions k xs = [j] \<and> j < length xs \<and> xs ! j = k"
proof -
  from assms(1) have "count_list xs k \<noteq> 0"
    by (simp add: count_list_0_iff)
  with assms(2) have "length (positions k xs) = 1"
    by (simp add: positions_length)
  then obtain j where j: "positions k xs = [j]"
    by (cases "positions k xs") auto
  then have "j \<in> set (positions k xs)" by simp
  then have "j < length xs \<and> xs ! j = k" by (rule positions_nth)
  with j show ?thesis by simp
qed

lemma ensure_columns_Cons:
  "ensure_columns f (n # ns)
     = ensure_columns (if n \<in> set (columns f) then f else add_column f n []) ns"
  by (simp add: ensure_columns_def)

lemma ensure_columns_shape:
  assumes "distinct names"
  shows "columns (ensure_columns f names) = columns f @ filter (\<lambda>n. n \<notin> set (columns f)) names
       \<and> rows (ensure_columns f names)
           = map (\<lambda>r. r @ replicate (length (filter (\<lambda>n. n \<notin> set (columns f)) names)) []) (rows f)"
  using assms
proof (induction names arbitrary: f)
  case Nil
  show ?case by (simp add: ensure_columns_def)
next
  case (Cons n ns)
  then have d: "distinct ns" and nn: "n \<notin> set ns" by simp_all
  show ?case
  proof (cases "n \<in> set (columns f)")
    case True
    with Cons.IH[OF d, of f] show ?thesis
      by (simp add: ensure_columns_Cons)
  next
    case False
    let ?g = "add_column f n []"
    have c: "columns ?g = columns f @ [n]" and r: "rows ?g = map (\<lambda>r. r @ [[]]) (rows f)"
      by (simp_all add: add_column_def)
    have f: "filter (\<lambda>x. x \<noteq> n \<and> x \<notin> set (columns f)) ns = filter (\<lambda>x. x \<notin> set (columns f)) ns"
      using nn by (intro filter_cong refl) auto
    have e: "ensure_columns f (n # ns) = ensure_columns ?g ns"
      using False by (simp add: ensure_columns_Cons)
    from Cons.IH[OF d, of ?g]
    have ih1: "columns (ensure_columns ?g ns) = columns ?g @ filter (\<lambda>x. x \<notin> set (columns ?g)) ns"
      and ih2: "rows (ensure_columns ?g ns)
          = map (\<lambda>r. r @ replicate (length (filter (\<lambda>x. x \<notin> set (columns ?g)) ns)) []) (rows ?g)"
      by blast+
    have 1: "columns (ensure_columns f (n # ns)) = columns f @ filter (\<lambda>x. x \<notin> set (columns f)) (n # ns)"
      using False by (simp add: e ih1 c f)
    have 2: "rows (ensure_columns f (n # ns))
        = map (\<lambda>r. r @ replicate (length (filter (\<lambda>x. x \<notin> set (columns f)) (n # ns))) []) (rows f)"
      using False by (simp add: e ih2 c r f replicate_app_Cons_same)
    from 1 2 show ?thesis by simp
  qed
qed


lemma distinct_count_list: "distinct xs \<Longrightarrow> count_list xs k \<le> 1"
  by (induction xs) auto

lemma key_position:
  assumes "k \<in> set names" "distinct names" "count_list labels k \<le> 1"
  defines "missing \<equiv> filter (\<lambda>x. x \<notin> set labels) names"
  shows "\<exists>p. positions k (labels @ missing) = [p] \<and> (labels @ missing) ! p = k
           \<and> (\<forall>r. length r = length labels \<longrightarrow>
                 (r @ replicate (length missing) v) ! p
                   = (case positions k labels of [] \<Rightarrow> v | j # js \<Rightarrow> r ! j))"
proof (cases "k \<in> set labels")
  case True
  from positions_single[OF True assms(3)]
  obtain j where j: "positions k labels = [j]" "j < length labels" "labels ! j = k"
    by (elim exE conjE)
  from True have "k \<notin> set missing" by (simp add: missing_def)
  then have "positions k missing = []" by (rule positions_empty)
  with j have "positions k (labels @ missing) = [j]"
    by (simp add: positions_append)
  with j show ?thesis
    by (simp add: nth_append)
next
  case False
  then have e: "positions k labels = []" by (rule positions_empty)
  from False assms(1) have km: "k \<in> set missing" by (simp add: missing_def)
  from assms(2) have "distinct missing" by (simp add: missing_def)
  then have "count_list missing k \<le> 1"
    by (rule distinct_count_list)
  from positions_single[OF km this]
  obtain m where m: "positions k missing = [m]" "m < length missing" "missing ! m = k"
    by (elim exE conjE)
  with e have "positions k (labels @ missing) = [length labels + m]"
    by (simp add: positions_append)
  with m e show ?thesis
    by (simp add: nth_append)
qed


lemma keys_distinct: "distinct (map fst column_keywords)"
  by (simp add: column_keywords_def u_def)

text \<open>
  The reconciled table of the delay-order script, when no required label is bound by two
  header cells: the required columns in their order, each row holding for every required
  label the cell of the one source column bound to it, or the empty text.
\<close>

lemma reconcile_shape:
  fixes df :: "ustring list list"
  defines "h \<equiv> fst (detect_header df)"
  defines "labels \<equiv> map map_label (df ! h)"
  defines "names \<equiv> map fst column_keywords"
  assumes hl: "h < length df"
    and once: "\<forall>k \<in> set names. count_list labels k \<le> 1"
    and rect: "\<forall>r \<in> set (drop (h + 1) df). length r = length (df ! h)"
  shows "reconcile df
     = Inr \<lparr>columns = names,
            rows = map (\<lambda>r. map (\<lambda>k. case positions k labels of [] \<Rightarrow> [] | j # js \<Rightarrow> r ! j) names)
                     (drop (h + 1) df)\<rparr>"
proof -
  define missing where "missing = filter (\<lambda>x. x \<notin> set labels) names"
  define g where "g = ensure_columns \<lparr>columns = labels, rows = drop (h + 1) df\<rparr> names"
  have d: "distinct names"
    by (simp add: names_def keys_distinct)
  have gc: "columns g = labels @ missing"
    and gr: "rows g = map (\<lambda>r. r @ replicate (length missing) []) (drop (h + 1) df)"
    using ensure_columns_shape[OF d, of "\<lparr>columns = labels, rows = drop (h + 1) df\<rparr>"]
    by (simp_all add: g_def missing_def)
  have present: "\<forall>n \<in> set names. n \<in> set (columns g)"
    using ensure_columns_present[of names] by (auto simp: g_def)
  have kp: "\<exists>p. positions k (labels @ missing) = [p] \<and> (labels @ missing) ! p = k
           \<and> (\<forall>r. length r = length labels \<longrightarrow>
                 (r @ replicate (length missing) []) ! p
                   = (case positions k labels of [] \<Rightarrow> [] | j # js \<Rightarrow> r ! j))"
    if "k \<in> set names" for k
    using key_position[OF that d, of labels "[]"] once that by (simp add: missing_def)
  have c1: "map (\<lambda>j. columns g ! j) (positions k (columns g)) = [k]" if "k \<in> set names" for k
    using kp[OF that] by (auto simp: gc)
  have c2: "map (\<lambda>j. (r @ replicate (length missing) []) ! j) (positions k (columns g))
            = [case positions k labels of [] \<Rightarrow> [] | j # js \<Rightarrow> r ! j]"
    if "k \<in> set names" "length r = length labels" for k r
    using kp[OF that(1)] that(2) by (auto simp: gc)
  have cols: "concat (map (\<lambda>n. map (\<lambda>j. columns g ! j) (positions n (columns g))) names) = names"
  proof -
    have "map (\<lambda>n. map (\<lambda>j. columns g ! j) (positions n (columns g))) names = map (\<lambda>n. [n]) names"
      by (rule map_cong[OF refl]) (simp add: c1)
    then show ?thesis by (simp only: concat_map_singleton list.map_ident)
  qed
  have row: "concat (map (\<lambda>n. map (\<lambda>j. (r @ replicate (length missing) []) ! j) (positions n (columns g))) names)
          = map (\<lambda>k. case positions k labels of [] \<Rightarrow> [] | j # js \<Rightarrow> r ! j) names"
    if "r \<in> set (drop (h + 1) df)" for r
  proof -
    from that rect have l: "length r = length labels" by (simp add: labels_def)
    have "map (\<lambda>n. map (\<lambda>j. (r @ replicate (length missing) []) ! j) (positions n (columns g))) names
          = map (\<lambda>k. [case positions k labels of [] \<Rightarrow> [] | j # js \<Rightarrow> r ! j]) names"
      by (rule map_cong[OF refl]) (simp add: c2 l)
    then show ?thesis by (simp only: concat_map_singleton)
  qed
  have rws: "map (\<lambda>r. concat (map (\<lambda>n. map (\<lambda>j. r ! j) (positions n (columns g))) names)) (rows g)
      = map (\<lambda>r. map (\<lambda>k. case positions k labels of [] \<Rightarrow> [] | j # js \<Rightarrow> r ! j) names) (drop (h + 1) df)"
  proof -
    have "map (\<lambda>r. concat (map (\<lambda>n. map (\<lambda>j. r ! j) (positions n (columns g))) names)) (rows g)
        = map (\<lambda>r. concat (map (\<lambda>n. map (\<lambda>j. (r @ replicate (length missing) []) ! j)
                                         (positions n (columns g))) names)) (drop (h + 1) df)"
      by (simp only: gr map_map comp_def)
    also have "\<dots> = map (\<lambda>r. map (\<lambda>k. case positions k labels of [] \<Rightarrow> [] | j # js \<Rightarrow> r ! j) names)
                       (drop (h + 1) df)"
      by (rule map_cong[OF refl]) (rule row)
    finally show ?thesis .
  qed
  have "reconcile df = select_columns g names"
    using hl by (simp add: reconcile_def Let_def g_def h_def labels_def names_def)
  also have "\<dots> = Inr \<lparr>columns = names,
            rows = map (\<lambda>r. map (\<lambda>k. case positions k labels of [] \<Rightarrow> [] | j # js \<Rightarrow> r ! j) names)
                     (drop (h + 1) df)\<rparr>"
    using present by (simp add: select_columns_def cols rws)
  finally show ?thesis .
qed

end
